theory Spec2Isabelle
  imports Main
begin

section \<open>Struct tags: the \<open>key:"value"\<close> scanner and \<open>parseTag\<close>\<close>

text \<open>
  Go strings are byte sequences, so a tag is a \<^typ>\<open>string\<close> (a list of 8-bit
  characters). The characters the scanner tests for are named once.
\<close>

abbreviation (input) space :: char where "space \<equiv> CHR 0x20"
abbreviation (input) colon :: char where "colon \<equiv> CHR 0x3A"
abbreviation (input) dquote :: char where "dquote \<equiv> CHR 0x22"
abbreviation (input) squote :: char where "squote \<equiv> CHR 0x27"
abbreviation (input) bslash :: char where "bslash \<equiv> CHR 0x5C"
abbreviation (input) newline :: char where "newline \<equiv> CHR 0x0A"

subsection \<open>\<open>unicode/utf8\<close>: the two functions \<open>strconv.Unquote\<close> uses\<close>

definition RuneError :: nat where
  "RuneError = 0xFFFD"

definition MaxRune :: nat where
  "MaxRune = 0x10FFFF"

definition cont_byte :: "nat \<Rightarrow> nat \<Rightarrow> string \<Rightarrow> nat \<Rightarrow> bool" where
  \<comment> \<open>byte \<open>i\<close> of \<open>s\<close> exists and lies in \<open>lo..hi\<close>\<close>
  "cont_byte lo hi s i = (i < length s \<and> lo \<le> (of_char (s ! i) :: nat) \<and> (of_char (s ! i) :: nat) \<le> hi)"

definition low6 :: "string \<Rightarrow> nat \<Rightarrow> nat" where
  "low6 s i = (of_char (s ! i) :: nat) mod 64"

definition DecodeRune :: "string \<Rightarrow> nat \<times> nat" where
  \<comment> \<open>\<open>utf8.DecodeRuneInString\<close>: the rune and its width; \<open>(RuneError, 1)\<close> on bad input\<close>
  "DecodeRune s =
     (if s = [] then (RuneError, 0)
      else let b0 = (of_char (s ! 0) :: nat) in
        if b0 < 0x80 then (b0, 1)
        else if 0xC2 \<le> b0 \<and> b0 \<le> 0xDF then
          (if cont_byte 0x80 0xBF s 1 then ((b0 mod 32) * 64 + low6 s 1, 2) else (RuneError, 1))
        else if 0xE0 \<le> b0 \<and> b0 \<le> 0xEF then
          (if cont_byte (if b0 = 0xE0 then 0xA0 else 0x80) (if b0 = 0xED then 0x9F else 0xBF) s 1
              \<and> cont_byte 0x80 0xBF s 2
           then ((b0 mod 16) * 4096 + low6 s 1 * 64 + low6 s 2, 3) else (RuneError, 1))
        else if 0xF0 \<le> b0 \<and> b0 \<le> 0xF4 then
          (if cont_byte (if b0 = 0xF0 then 0x90 else 0x80) (if b0 = 0xF4 then 0x8F else 0xBF) s 1
              \<and> cont_byte 0x80 0xBF s 2 \<and> cont_byte 0x80 0xBF s 3
           then ((b0 mod 8) * 262144 + low6 s 1 * 4096 + low6 s 2 * 64 + low6 s 3, 4)
           else (RuneError, 1))
        else (RuneError, 1))"

definition ValidRune :: "nat \<Rightarrow> bool" where
  "ValidRune r = (r < 0xD800 \<or> (0xDFFF < r \<and> r \<le> MaxRune))"

definition EncodeRune :: "nat \<Rightarrow> string" where
  \<comment> \<open>\<open>utf8.EncodeRune\<close>: an invalid rune is written as \<open>RuneError\<close>\<close>
  "EncodeRune r0 =
     (let r = (if ValidRune r0 then r0 else RuneError) in
      if r \<le> 0x7F then [char_of r]
      else if r \<le> 0x7FF then [char_of (0xC0 + r div 64), char_of (0x80 + r mod 64)]
      else if r \<le> 0xFFFF then
        [char_of (0xE0 + r div 4096), char_of (0x80 + r div 64 mod 64), char_of (0x80 + r mod 64)]
      else
        [char_of (0xF0 + r div 262144), char_of (0x80 + r div 4096 mod 64),
         char_of (0x80 + r div 64 mod 64), char_of (0x80 + r mod 64)])"

function ValidString :: "string \<Rightarrow> bool" where
  "ValidString s =
     (if s = [] then True
      else (case DecodeRune s of (r, n) \<Rightarrow>
              if r = RuneError \<and> n = 1 then False else ValidString (drop n s)))"
  by pat_completeness auto

subsection \<open>\<open>strconv.Unquote\<close> on a double-quoted literal\<close>

definition unhex :: "char \<Rightarrow> nat option" where
  "unhex c =
     (let b = (of_char c :: nat) in
      if 0x30 \<le> b \<and> b \<le> 0x39 then Some (b - 0x30)
      else if 0x61 \<le> b \<and> b \<le> 0x66 then Some (b - 0x61 + 10)
      else if 0x41 \<le> b \<and> b \<le> 0x46 then Some (b - 0x41 + 10)
      else None)"

fun hex_value :: "nat \<Rightarrow> string \<Rightarrow> nat option" where
  \<comment> \<open>\<open>v = v<<4 | x\<close> over the digits, \<open>None\<close> at the first character that is no digit\<close>
  "hex_value v [] = Some v"
| "hex_value v (c # cs) =
     (case unhex c of None \<Rightarrow> None | Some x \<Rightarrow> hex_value (v * 16 + x) cs)"

fun oct_value :: "nat \<Rightarrow> string \<Rightarrow> nat option" where
  "oct_value v [] = Some v"
| "oct_value v (c # cs) =
     (let b = (of_char c :: nat) in
      if 0x30 \<le> b \<and> b \<le> 0x37 then oct_value (v * 8 + (b - 0x30)) cs else None)"

definition escape_width :: "char \<Rightarrow> nat" where
  "escape_width c = (if c = CHR ''x'' then 2 else if c = CHR ''u'' then 4 else 8)"

definition UnquoteEscape :: "char \<Rightarrow> string \<Rightarrow> char \<Rightarrow> (nat \<times> bool \<times> string) option" where
  \<comment> \<open>the "hard case" of \<open>UnquoteChar\<close>: \<open>c\<close> is the character after the backslash\<close>
  "UnquoteEscape c s quote =
     (if c = CHR ''a'' then Some (7, False, s)
      else if c = CHR ''b'' then Some (8, False, s)
      else if c = CHR ''f'' then Some (12, False, s)
      else if c = CHR ''n'' then Some (10, False, s)
      else if c = CHR ''r'' then Some (13, False, s)
      else if c = CHR ''t'' then Some (9, False, s)
      else if c = CHR ''v'' then Some (11, False, s)
      else if c = CHR ''x'' \<or> c = CHR ''u'' \<or> c = CHR ''U'' then
        (let n = escape_width c in
         if length s < n then None
         else (case hex_value 0 (take n s) of
                 None \<Rightarrow> None
               | Some v \<Rightarrow>
                   if c = CHR ''x'' then Some (v, False, drop n s)
                   else if \<not> ValidRune v then None
                   else Some (v, True, drop n s)))
      else if 0x30 \<le> (of_char c :: nat) \<and> (of_char c :: nat) \<le> 0x37 then
        (if length s < 2 then None
         else (case oct_value ((of_char c :: nat) - 0x30) (take 2 s) of
                 None \<Rightarrow> None
               | Some v \<Rightarrow> if v > 255 then None else Some (v, False, drop 2 s)))
      else if c = bslash then Some (0x5C, False, s)
      else if c = squote \<or> c = dquote then
        (if c \<noteq> quote then None else Some (of_char c, False, s))
      else None)"

definition UnquoteChar :: "string \<Rightarrow> char \<Rightarrow> (nat \<times> bool \<times> string) option" where
  \<comment> \<open>value, multibyte, tail; \<open>None\<close> is \<open>ErrSyntax\<close>\<close>
  "UnquoteChar s quote =
     (case s of
        [] \<Rightarrow> None
      | c # t \<Rightarrow>
          if c = quote \<and> (quote = squote \<or> quote = dquote) then None
          else if (of_char c :: nat) \<ge> 0x80 then
            (case DecodeRune s of (r, n) \<Rightarrow> Some (r, True, drop n s))
          else if c \<noteq> bslash then Some (of_char c, False, t)
          else (case t of [] \<Rightarrow> None | e # t' \<Rightarrow> UnquoteEscape e t' quote))"

function unquote_loop :: "char \<Rightarrow> string \<Rightarrow> string \<Rightarrow> string option" where
  \<comment> \<open>\<open>for len(s) > 0 { c, multibyte, ss, err := UnquoteChar(s, quote); ... }\<close>\<close>
  "unquote_loop quote s buf =
     (if s = [] then Some buf
      else (case UnquoteChar s quote of
              None \<Rightarrow> None
            | Some (c, multibyte, ss) \<Rightarrow>
                unquote_loop quote ss
                  (buf @ (if c < 0x80 \<or> \<not> multibyte then [char_of c] else EncodeRune c))))"
  by pat_completeness auto

definition Unquote :: "string \<Rightarrow> string option" where
  \<comment> \<open>\<open>strconv.Unquote\<close>; the raw (back-quoted) and the single-quoted forms, which
      \<open>extractTag\<close> never passes, are left out and answer \<open>ErrSyntax\<close>\<close>
  "Unquote s =
     (let n = length s in
      if n < 2 then None
      else let quote = s ! 0 in
        if quote \<noteq> s ! (n - 1) then None
        else let body = take (n - 2) (drop 1 s) in
          if quote \<noteq> dquote then None
          else if newline \<in> set body then None
          else if bslash \<notin> set body \<and> quote \<notin> set body \<and> ValidString body then Some body
          else unquote_loop quote body [])"

subsection \<open>\<open>extractTag\<close> (\<open>structtag.Extract "inject"\<close>) and \<open>parseTag\<close>\<close>

fun skip_space :: "string \<Rightarrow> nat" where
  \<comment> \<open>\<open>i := 0; for i < len(tag) && tag[i] == ' ' { i++ }\<close>\<close>
  "skip_space [] = 0"
| "skip_space (c # cs) = (if c = space then Suc (skip_space cs) else 0)"

fun scan_to_colon :: "string \<Rightarrow> nat" where
  \<comment> \<open>\<open>i = 0; for i < len(tag) && tag[i] != ' ' && tag[i] != ':' && tag[i] != '"' { i++ }\<close>\<close>
  "scan_to_colon [] = 0"
| "scan_to_colon (c # cs) =
     (if c \<noteq> space \<and> c \<noteq> colon \<and> c \<noteq> dquote then Suc (scan_to_colon cs) else 0)"

fun scan_quoted :: "string \<Rightarrow> nat" where
  \<comment> \<open>the loop \<open>for i < len(tag) && tag[i] != '"' { if tag[i] == '\\' { i++ }; i++ }\<close>,
      run on the characters from the loop's start: the number of positions advanced\<close>
  "scan_quoted [] = 0"
| "scan_quoted (c # cs) =
     (if c = dquote then 0
      else if c = bslash then (case cs of [] \<Rightarrow> 2 | d # ds \<Rightarrow> 2 + scan_quoted ds)
      else Suc (scan_quoted cs))"

datatype tag_error = errInvalidTag | ErrSyntax

function extractTag :: "string \<Rightarrow> tag_error + (bool \<times> string)" where
  "extractTag tag0 =
     (if tag0 = [] then Inr (False, [])
      else let tag1 = drop (skip_space tag0) tag0 in
        if tag1 = [] then Inr (False, [])
        else let i = scan_to_colon tag1 in
          if i + 1 \<ge> length tag1 \<or> tag1 ! i \<noteq> colon \<or> tag1 ! (i + 1) \<noteq> dquote
          then Inl errInvalidTag
          else let name = take i tag1; tag2 = drop (i + 1) tag1;
                   j = 1 + scan_quoted (drop 1 tag2) in
            if j \<ge> length tag2 then Inl errInvalidTag
            else let qvalue = take (j + 1) tag2; tag3 = drop (j + 1) tag2 in
              if ''inject'' = name then
                (case Unquote qvalue of None \<Rightarrow> Inl ErrSyntax | Some v \<Rightarrow> Inr (True, v))
              else extractTag tag3)"
  by pat_completeness auto

text \<open>
  \<open>type tag struct { Name string; Private bool }\<close>. The code compares tags by pointer
  with the two package-level tags \<open>injectOnly\<close> and \<open>injectPrivate\<close>; every other tag
  \<open>parseTag\<close> returns is freshly allocated with a non-empty \<open>Name\<close>, so pointer equality
  with either of them coincides with equality of the records.
\<close>

record tag =
  tagName :: string
  tagPrivate :: bool

definition injectOnly :: tag where
  "injectOnly = \<lparr>tagName = [], tagPrivate = False\<rparr>"

definition injectPrivate :: tag where
  "injectPrivate = \<lparr>tagName = [], tagPrivate = True\<rparr>"

definition parseTag :: "string \<Rightarrow> tag_error + tag option" where
  \<comment> \<open>\<open>None\<close> is the nil tag (no \<open>inject\<close> key)\<close>
  "parseTag t =
     (case extractTag t of
        Inl err \<Rightarrow> Inl err
      | Inr (found, v) \<Rightarrow>
          if \<not> found then Inr None
          else if v = [] then Inr (Some injectOnly)
          else if v = ''private'' then Inr (Some injectPrivate)
          else Inr (Some \<lparr>tagName = v, tagPrivate = False\<rparr>))"


subsection \<open>The tag grammar, as the specification words it\<close>

text \<open>
  The specification describes a tag as a sequence of \<open>key:"quoted-value"\<close> pairs, the
  keys separated by spaces, each value a quoted and escaped string literal. The relation
  below is that grammar, independent of the scanner: \<open>tag_pairs t ps\<close> holds when the
  whole of \<open>t\<close> is such a sequence and \<open>ps\<close> lists its keys with their unquoted values.
\<close>

fun quoted_body :: "string \<Rightarrow> bool" where
  \<comment> \<open>the inside of a quoted literal: no bare quote, every backslash followed by a character\<close>
  "quoted_body [] = True"
| "quoted_body (c # cs) =
     (if c = dquote then False
      else if c = bslash then (case cs of [] \<Rightarrow> False | d # ds \<Rightarrow> quoted_body ds)
      else quoted_body cs)"

definition key_chars :: "string \<Rightarrow> bool" where
  "key_chars k = (\<forall>c \<in> set k. c \<noteq> space \<and> c \<noteq> colon \<and> c \<noteq> dquote)"

definition spaces :: "string \<Rightarrow> bool" where
  "spaces sp = (\<forall>c \<in> set sp. c = space)"

inductive tag_pairs :: "string \<Rightarrow> (string \<times> string) list \<Rightarrow> bool" where
  tag_end: "spaces sp \<Longrightarrow> tag_pairs sp []"
| tag_pair:
    "spaces sp \<Longrightarrow> key_chars k \<Longrightarrow> quoted_body body \<Longrightarrow>
     Unquote (dquote # body @ [dquote]) = Some v \<Longrightarrow> tag_pairs rest ps \<Longrightarrow>
     tag_pairs (sp @ k @ colon # dquote # body @ dquote # rest) ((k, v) # ps)"

definition tag_of_value :: "string option \<Rightarrow> tag option" where
  \<comment> \<open>the Tag the specification assigns to the value of the \<open>inject\<close> key\<close>
  "tag_of_value vo =
     (case vo of
        None \<Rightarrow> None
      | Some v \<Rightarrow>
          Some (if v = [] then injectOnly
                else if v = ''private'' then injectPrivate
                else \<lparr>tagName = v, tagPrivate = False\<rparr>))"

section \<open>Types and values, as package \<open>reflect\<close> presents them\<close>

text \<open>
  A named struct or interface type is identified by its name; the fields of a struct type,
  the method sets, the printed form of a type and the zero values are what the Go run
  time supplies, so they are the components of a record the model takes as a parameter.
\<close>

datatype rtype =
    TStruct string
  | TPtr rtype
  | TInterface string
  | TMap rtype rtype
  | TBasic string

datatype kind = KPtr | KStruct | KInterface | KMap | KOther

fun Kind :: "rtype \<Rightarrow> kind" where
  "Kind (TStruct n) = KStruct"
| "Kind (TPtr t) = KPtr"
| "Kind (TInterface n) = KInterface"
| "Kind (TMap k v) = KMap"
| "Kind (TBasic n) = KOther"

text \<open>
  Values. A pointer is an allocation together with the path of field indices leading to
  the struct it points at inside that allocation (\<open>field.Addr()\<close> of an inline struct
  points into its parent). \<open>VNil\<close> is the nil pointer, the nil map and the nil interface;
  a non-nil interface value carries its dynamic type.
\<close>

datatype gval =
    VNil
  | VPtr nat "nat list"
  | VStruct "gval list"
  | VMap
  | VBasic int
  | VIface rtype gval

type_synonym iface = "(rtype \<times> gval) option"

record StructField =
  fname :: string
  ftype :: rtype
  ftag :: string
  fexported :: bool
  fanonymous :: bool

record reflection =
  Fields :: "string \<Rightarrow> StructField list"
  Implements :: "rtype \<Rightarrow> string \<Rightarrow> bool"
  TypeString :: "rtype \<Rightarrow> string"
  Zero :: "rtype \<Rightarrow> gval"

definition isStructPtr :: "rtype \<Rightarrow> bool" where
  "isStructPtr t = (case t of TPtr e \<Rightarrow> Kind e = KStruct | _ \<Rightarrow> False)"

definition AssignableTo :: "reflection \<Rightarrow> rtype \<Rightarrow> rtype \<Rightarrow> bool" where
  \<comment> \<open>identical types, or the target is an interface the type implements\<close>
  "AssignableTo rt t u =
     (t = u \<or> (case u of TInterface n \<Rightarrow> Implements rt t n | _ \<Rightarrow> False))"

definition isNilOrZero :: "reflection \<Rightarrow> gval \<Rightarrow> rtype \<Rightarrow> bool" where
  \<comment> \<open>\<open>reflect.DeepEqual\<close> with the zero value follows no pointer, the zero value having
      none, so it is equality of the two values\<close>
  "isNilOrZero rt v t =
     (if Kind t = KInterface \<or> Kind t = KPtr then v = VNil else v = Zero rt t)"

subsection \<open>The heap of the caller's structs\<close>

type_synonym heap = "gval list"

fun get_path :: "gval \<Rightarrow> nat list \<Rightarrow> gval option" where
  "get_path v [] = Some v"
| "get_path (VStruct fs) (i # p) = (if i < length fs then get_path (fs ! i) p else None)"
| "get_path v (i # p) = None"

fun set_path :: "gval \<Rightarrow> nat list \<Rightarrow> gval \<Rightarrow> gval" where
  "set_path v [] x = x"
| "set_path (VStruct fs) (i # p) x =
     (if i < length fs then VStruct (fs[i := set_path (fs ! i) p x]) else VStruct fs)"
| "set_path v (i # p) x = v"

definition load :: "heap \<Rightarrow> nat \<Rightarrow> nat list \<Rightarrow> gval option" where
  "load h a p = (if a < length h then get_path (h ! a) p else None)"

definition store :: "heap \<Rightarrow> nat \<Rightarrow> nat list \<Rightarrow> gval \<Rightarrow> heap" where
  "store h a p x = (if a < length h then h[a := set_path (h ! a) p x] else h)"

definition ValueOf :: "rtype \<Rightarrow> rtype \<times> gval \<Rightarrow> gval" where
  \<comment> \<open>what \<open>field.Set(reflect.ValueOf(x))\<close> stores in a field of type \<open>ft\<close>\<close>
  "ValueOf ft x = (if Kind ft = KInterface then VIface (fst x) (snd x) else snd x)"

section \<open>Objects and the graph\<close>

record Object =
  Value :: iface
  Name :: string
  Complete :: bool
  reflectType :: "rtype option"
  reflectValue :: "gval option"
  is_private :: bool
  level :: nat
  created :: bool
  embedded :: bool

text \<open>
  A \<open>*Object\<close> held by the graph is the slot that holds it: an index of \<open>unnamed\<close> or a key
  of \<open>named\<close>. The \<open>Logger\<close> only receives text and is left out.
\<close>

datatype oref = Unnamed nat | Named string

record Graph =
  unnamed :: "Object list"
  unnamedType :: "string \<Rightarrow> bool"
  named :: "string \<Rightarrow> Object option"
  maxLevel :: nat
  levels :: "oref list list"

definition empty_Graph :: Graph where
  \<comment> \<open>\<open>var g Graph\<close>\<close>
  "empty_Graph =
     \<lparr>unnamed = [], unnamedType = (\<lambda>k. False), named = Map.empty, maxLevel = 0, levels = []\<rparr>"

definition new_Object :: "iface \<Rightarrow> string \<Rightarrow> bool \<Rightarrow> Object" where
  \<comment> \<open>\<open>&Object{Value: v, Name: n, Complete: c}\<close>: all a caller outside the package can set\<close>
  "new_Object v n c =
     \<lparr>Value = v, Name = n, Complete = c, reflectType = None, reflectValue = None,
      is_private = False, level = 0, created = False, embedded = False\<rparr>"

datatype err =
    NotStructPtr rtype iface
  | TwoUnnamed rtype
  | TwoNamed string
  | UnexpectedTag string string rtype
  | UnexportedField string rtype
  | NamedNotFound string string rtype
  | NamedNotAssignable string rtype string rtype
  | PrivateInline string rtype
  | MapNotPrivate string rtype
  | UnsupportedField string rtype
  | PrivateInterface string rtype
  | TwoAssignable string rtype "rtype option" iface "rtype option" "gval option"
  | NoAssignable string rtype
  | Panic string

type_synonym 's result = "err option \<times> 's"

fun for_each :: "('a \<Rightarrow> 's \<Rightarrow> 's result) \<Rightarrow> 'a list \<Rightarrow> 's \<Rightarrow> 's result" where
  \<comment> \<open>a \<open>for\<close> loop whose body returns the first error\<close>
  "for_each f [] s = (None, s)"
| "for_each f (x # xs) s =
     (case f x s of (Some e, s') \<Rightarrow> (Some e, s') | (None, s') \<Rightarrow> for_each f xs s')"

definition Provide1 :: "reflection \<Rightarrow> Object \<Rightarrow> Graph \<Rightarrow> Graph result" where
  \<comment> \<open>the body of the loop of \<open>Graph.Provide\<close>\<close>
  "Provide1 rt o0 g =
     (let ob = o0\<lparr>reflectType := map_option fst (Value o0),
                  reflectValue := map_option snd (Value o0)\<rparr> in
      if Name ob = [] then
        (case reflectType ob of
           None \<Rightarrow> (Some (Panic ''nil pointer dereference''), g)
         | Some t \<Rightarrow>
             if \<not> isStructPtr t then (Some (NotStructPtr t (Value ob)), g)
             else if \<not> is_private ob then
               (let key = TypeString rt t in
                if unnamedType g key then (Some (TwoUnnamed t), g)
                else (None, g\<lparr>unnamedType := (unnamedType g)(key := True),
                               unnamed := unnamed g @ [ob]\<rparr>))
             else (None, g\<lparr>unnamed := unnamed g @ [ob]\<rparr>))
      else
        (case named g (Name ob) of
           Some x \<Rightarrow> (Some (TwoNamed (Name ob)), g)
         | None \<Rightarrow> (None, g\<lparr>named := (named g)(Name ob \<mapsto> ob)\<rparr>)))"

definition Provide :: "reflection \<Rightarrow> Object list \<Rightarrow> Graph \<Rightarrow> Graph result" where
  "Provide rt objects g = for_each (Provide1 rt) objects g"

fun get_obj :: "Graph \<Rightarrow> oref \<Rightarrow> Object option" where
  "get_obj g (Unnamed i) = (if i < length (unnamed g) then Some (unnamed g ! i) else None)"
| "get_obj g (Named n) = named g n"

fun set_level :: "Graph \<Rightarrow> oref \<Rightarrow> nat \<Rightarrow> Graph" where
  "set_level g (Unnamed i) l = g\<lparr>unnamed := (unnamed g)[i := (unnamed g ! i)\<lparr>level := l\<rparr>]\<rparr>"
| "set_level g (Named n) l =
     (case named g n of None \<Rightarrow> g | Some ob \<Rightarrow> g\<lparr>named := (named g)(n \<mapsto> ob\<lparr>level := l\<rparr>)\<rparr>)"

definition raise_maxLevel :: "Graph \<Rightarrow> nat \<Rightarrow> Graph" where
  \<comment> \<open>\<open>if g.maxLevel < newLevel { g.maxLevel = newLevel }\<close>\<close>
  "raise_maxLevel g newLevel = (if maxLevel g < newLevel then g\<lparr>maxLevel := newLevel\<rparr> else g)"

definition updateLevel :: "Graph \<Rightarrow> oref \<Rightarrow> oref \<Rightarrow> Graph" where
  "updateLevel g use dep =
     (case (get_obj g use, get_obj g dep) of
        (Some u, Some d) \<Rightarrow>
          (let newLevel = level u + 1 in
           if newLevel \<le> level d then g
           else raise_maxLevel (set_level g dep newLevel) newLevel)
      | _ \<Rightarrow> g)"

section \<open>Populating the graph\<close>

fun Elem :: "rtype \<Rightarrow> rtype" where
  "Elem (TPtr t) = t"
| "Elem (TMap k v) = v"
| "Elem t = t"

definition and_then :: "'s result \<Rightarrow> ('s \<Rightarrow> 's result) \<Rightarrow> 's result" where
  \<comment> \<open>\<open>if err := ...; err != nil { return err }\<close>\<close>
  "and_then x f = (case x of (Some e, s) \<Rightarrow> (Some e, s) | (None, s) \<Rightarrow> f s)"

fun find_existing :: "reflection \<Rightarrow> rtype \<Rightarrow> Object list \<Rightarrow> nat \<Rightarrow> err + nat option" where
  \<comment> \<open>the scan of \<open>populateExplicit\<close>: the index of the first entry of \<open>g.unnamed\<close> that
      is not private and whose type is assignable to the field\<close>
  "find_existing rt ft [] k = Inr None"
| "find_existing rt ft (existing # es) k =
     (if is_private existing then find_existing rt ft es (Suc k)
      else (case reflectType existing of
              None \<Rightarrow> Inl (Panic ''nil pointer dereference'')
            | Some t \<Rightarrow>
                if AssignableTo rt t ft then Inr (Some k)
                else find_existing rt ft es (Suc k)))"

definition explicit_field ::
  "reflection \<Rightarrow> oref \<Rightarrow> string \<Rightarrow> nat \<Rightarrow> nat list \<Rightarrow> nat \<Rightarrow> Graph \<times> heap \<Rightarrow> (Graph \<times> heap) result"
where
  \<comment> \<open>one turn of \<open>StructLoop\<close> in \<open>populateExplicit\<close>: field \<open>i\<close> of the struct of type \<open>s\<close>
      that the object \<open>r\<close> points to, at path \<open>p\<close> of allocation \<open>a\<close>\<close>
  "explicit_field rt r s a p i st =
     (case st of (g, h) \<Rightarrow>
      (case get_obj g r of
         None \<Rightarrow> (Some (Panic ''nil pointer dereference''), st)
       | Some ob \<Rightarrow>
      (case load h a (p @ [i]) of
         None \<Rightarrow> (Some (Panic ''reflect: Field index out of range''), st)
       | Some field \<Rightarrow>
      (let ot = TPtr (TStruct s); fd = Fields rt s ! i; fieldType = ftype fd in
       case parseTag (ftag fd) of
         Inl e \<Rightarrow> (Some (UnexpectedTag (ftag fd) (fname fd) ot), st)
       | Inr None \<Rightarrow> (None, st)
       | Inr (Some tg) \<Rightarrow>
           if \<not> fexported fd then (Some (UnexportedField (fname fd) ot), st)
           else if \<not> isNilOrZero rt field fieldType then (None, st)
           else if tagName tg \<noteq> [] then
             (case named g (tagName tg) of
                None \<Rightarrow> (Some (NamedNotFound (tagName tg) (fname fd) ot), st)
              | Some existing \<Rightarrow>
                  (case (reflectType existing, Value existing) of
                     (Some t, Some x) \<Rightarrow>
                       if \<not> AssignableTo rt t fieldType
                       then (Some (NamedNotAssignable (tagName tg) fieldType (fname fd) ot), st)
                       else (None, (updateLevel g r (Named (tagName tg)),
                                    store h a (p @ [i]) (ValueOf fieldType x)))
                   | _ \<Rightarrow> (Some (Panic ''nil pointer dereference''), st)))
           else if Kind fieldType = KStruct then
             (if tg = injectPrivate then (Some (PrivateInline (fname fd) ot), st)
              else
                (let newLevel = level ob + 1; g1 = raise_maxLevel g newLevel in
                 case Provide1 rt
                        \<lparr>Value = Some (TPtr fieldType, VPtr a (p @ [i])), Name = [],
                         Complete = False, reflectType = None, reflectValue = None,
                         is_private = True, level = newLevel, created = False,
                         embedded = True\<rparr> g1 of
                   (eo, g2) \<Rightarrow> (eo, (g2, h))))
           else if Kind fieldType = KInterface then (None, st)
           else if Kind fieldType = KMap then
             (if tg \<noteq> injectPrivate then (Some (MapNotPrivate (fname fd) ot), st)
              else (None, (g, store h a (p @ [i]) VMap)))
           else if \<not> isStructPtr fieldType then (Some (UnsupportedField (fname fd) ot), st)
           else
             (case (if tg \<noteq> injectPrivate then find_existing rt fieldType (unnamed g) 0
                    else Inr None) of
                Inl e \<Rightarrow> (Some e, st)
              | Inr (Some k) \<Rightarrow>
                  (case Value (unnamed g ! k) of
                     None \<Rightarrow> (Some (Panic ''reflect: call of Set on zero Value''), st)
                   | Some x \<Rightarrow>
                       (None, (updateLevel g r (Unnamed k),
                               store h a (p @ [i]) (ValueOf fieldType x))))
              | Inr None \<Rightarrow>
                  (let newValue = VPtr (length h) []; h1 = h @ [Zero rt (Elem fieldType)];
                       newLevel = level ob + 1; g1 = raise_maxLevel g newLevel;
                       newObject =
                         \<lparr>Value = Some (fieldType, newValue), Name = [], Complete = False,
                          reflectType = None, reflectValue = None,
                          is_private = (tg = injectPrivate), level = newLevel,
                          created = True, embedded = False\<rparr> in
                   case Provide1 rt newObject g1 of
                     (Some e, g2) \<Rightarrow> (Some e, (g2, h1))
                   | (None, g2) \<Rightarrow> (None, (g2, store h1 a (p @ [i]) newValue))))))))"

definition populateExplicit :: "reflection \<Rightarrow> oref \<Rightarrow> Graph \<times> heap \<Rightarrow> (Graph \<times> heap) result" where
  "populateExplicit rt r st =
     (case st of (g, h) \<Rightarrow>
      (case get_obj g r of
         None \<Rightarrow> (Some (Panic ''nil pointer dereference''), st)
       | Some ob \<Rightarrow>
           (case reflectType ob of
              None \<Rightarrow> (Some (Panic ''nil pointer dereference''), st)
            | Some t \<Rightarrow>
                if Name ob \<noteq> [] \<and> \<not> isStructPtr t then (None, st)
                else
                  (case (t, reflectValue ob) of
                     (TPtr (TStruct s), Some (VPtr a p)) \<Rightarrow>
                       for_each (explicit_field rt r s a p) [0..<length (Fields rt s)] st
                   | _ \<Rightarrow> (Some (Panic ''reflect: call of NumField on zero Value''), st)))))"

definition interface_visit ::
  "reflection \<Rightarrow> oref \<Rightarrow> StructField \<Rightarrow> rtype \<Rightarrow> nat \<Rightarrow> nat list \<Rightarrow> nat \<Rightarrow>
   nat option \<times> Graph \<times> heap \<Rightarrow> (nat option \<times> Graph \<times> heap) result"
where
  \<comment> \<open>one turn of the scan of \<open>populateUnnamedInterface\<close>, at entry \<open>k\<close> of \<open>g.unnamed\<close>;
      \<open>found\<close> is the index of the entry found so far\<close>
  "interface_visit rt r fd ot a q k st =
     (case st of (found, g, h) \<Rightarrow>
      (let existing = unnamed g ! k in
       if is_private existing then (None, st)
       else
         (case reflectType existing of
            None \<Rightarrow> (Some (Panic ''nil pointer dereference''), st)
          | Some t \<Rightarrow>
              if AssignableTo rt t (ftype fd) then
                (case found of
                   Some j \<Rightarrow>
                     (Some (TwoAssignable (fname fd) ot (reflectType (unnamed g ! j))
                              (Value (unnamed g ! j)) (reflectType existing)
                              (reflectValue existing)), st)
                 | None \<Rightarrow>
                     if \<not> fexported fd
                     then (Some (Panic ''reflect: Set using unexported field''), (Some k, g, h))
                     else
                       (case Value existing of
                          None \<Rightarrow> (Some (Panic ''reflect: call of Set on zero Value''), st)
                        | Some x \<Rightarrow>
                            (None, (Some k, updateLevel g r (Unnamed k),
                                    store h a q (ValueOf (ftype fd) x)))))
              else (None, st))))"

definition interface_field ::
  "reflection \<Rightarrow> oref \<Rightarrow> string \<Rightarrow> nat \<Rightarrow> nat list \<Rightarrow> nat \<Rightarrow> Graph \<times> heap \<Rightarrow> (Graph \<times> heap) result"
where
  \<comment> \<open>one turn of the loop over the fields in \<open>populateUnnamedInterface\<close>\<close>
  "interface_field rt r s a p i st =
     (case st of (g, h) \<Rightarrow>
      (case load h a (p @ [i]) of
         None \<Rightarrow> (Some (Panic ''reflect: Field index out of range''), st)
       | Some field \<Rightarrow>
      (let ot = TPtr (TStruct s); fd = Fields rt s ! i; fieldType = ftype fd in
       case parseTag (ftag fd) of
         Inl e \<Rightarrow> (Some (UnexpectedTag (ftag fd) (fname fd) ot), st)
       | Inr None \<Rightarrow> (None, st)
       | Inr (Some tg) \<Rightarrow>
           if Kind fieldType \<noteq> KInterface then (None, st)
           else if tg = injectPrivate then (Some (PrivateInterface (fname fd) ot), st)
           else if \<not> isNilOrZero rt field fieldType then (None, st)
           else if tagName tg \<noteq> [] then
             (Some (Panic (''unhandled named instance with name '' @ tagName tg)), st)
           else
             (case for_each (interface_visit rt r fd ot a (p @ [i]))
                     [0..<length (unnamed g)] (None, g, h) of
                (Some e, (found, g', h')) \<Rightarrow> (Some e, (g', h'))
              | (None, (None, g', h')) \<Rightarrow> (Some (NoAssignable (fname fd) ot), (g', h'))
              | (None, (Some k, g', h')) \<Rightarrow> (None, (g', h'))))))"

definition populateUnnamedInterface :: "reflection \<Rightarrow> oref \<Rightarrow> Graph \<times> heap \<Rightarrow> (Graph \<times> heap) result" where
  "populateUnnamedInterface rt r st =
     (case st of (g, h) \<Rightarrow>
      (case get_obj g r of
         None \<Rightarrow> (Some (Panic ''nil pointer dereference''), st)
       | Some ob \<Rightarrow>
           (case reflectType ob of
              None \<Rightarrow> (Some (Panic ''nil pointer dereference''), st)
            | Some t \<Rightarrow>
                if Name ob \<noteq> [] \<and> \<not> isStructPtr t then (None, st)
                else
                  (case (t, reflectValue ob) of
                     (TPtr (TStruct s), Some (VPtr a p)) \<Rightarrow>
                       for_each (interface_field rt r s a p) [0..<length (Fields rt s)] st
                   | _ \<Rightarrow> (Some (Panic ''reflect: call of NumField on zero Value''), st)))))"

subsection \<open>\<open>Graph.Populate\<close>\<close>

text \<open>
  The first loop of \<open>Populate\<close> walks \<open>g.unnamed\<close> by index while \<open>populateExplicit\<close>
  appends to it. A field tagged \<open>private\<close> whose type refers back to its own struct makes
  it append for ever, so the loop takes fuel; \<open>None\<close> says the fuel ran out.

  Go iterates over a map in an order it does not specify. The three loops over \<open>g.named\<close>
  therefore take the order as a parameter: a list of the keys of \<open>named\<close>.
\<close>

fun explicit_unnamed ::
  "reflection \<Rightarrow> nat \<Rightarrow> nat \<Rightarrow> Graph \<times> heap \<Rightarrow> (Graph \<times> heap) result option"
where
  "explicit_unnamed rt 0 i st = None"
| "explicit_unnamed rt (Suc fuel) i st =
     (if i = length (unnamed (fst st)) then Some (None, st)
      else if Complete (unnamed (fst st) ! i) then explicit_unnamed rt fuel (i + 1) st
      else (case populateExplicit rt (Unnamed i) st of
              (Some e, st') \<Rightarrow> Some (Some e, st')
            | (None, st') \<Rightarrow> explicit_unnamed rt fuel (i + 1) st'))"

definition visit_named ::
  "(oref \<Rightarrow> Graph \<times> heap \<Rightarrow> (Graph \<times> heap) result) \<Rightarrow> string \<Rightarrow> Graph \<times> heap \<Rightarrow>
   (Graph \<times> heap) result"
where
  \<comment> \<open>the body of \<open>for _, o := range g.named { if o.Complete { continue }; ... }\<close>\<close>
  "visit_named f n st =
     (case named (fst st) n of
        None \<Rightarrow> (None, st)
      | Some ob \<Rightarrow> if Complete ob then (None, st) else f (Named n) st)"

definition visit_unnamed ::
  "(oref \<Rightarrow> Graph \<times> heap \<Rightarrow> (Graph \<times> heap) result) \<Rightarrow> nat \<Rightarrow> Graph \<times> heap \<Rightarrow>
   (Graph \<times> heap) result"
where
  \<comment> \<open>the body of \<open>for _, o := range g.unnamed { if o.Complete { continue }; ... }\<close>\<close>
  "visit_unnamed f k st =
     (if Complete (unnamed (fst st) ! k) then (None, st) else f (Unnamed k) st)"

definition add_level :: "Graph \<Rightarrow> oref \<Rightarrow> oref list list \<Rightarrow> (oref list list) result" where
  \<comment> \<open>\<open>g.levels[o.level] = append(g.levels[o.level], o)\<close>\<close>
  "add_level g r ls =
     (case get_obj g r of
        None \<Rightarrow> (None, ls)
      | Some ob \<Rightarrow>
          if level ob < length ls then (None, ls[level ob := ls ! level ob @ [r]])
          else (Some (Panic ''index out of range''), ls))"

definition build_levels :: "string list \<Rightarrow> Graph \<Rightarrow> Graph result" where
  "build_levels ord g =
     (case for_each (add_level g) (map Unnamed [0..<length (unnamed g)] @ map Named ord)
             (replicate (maxLevel g + 1) []) of
        (eo, ls) \<Rightarrow> (eo, g\<lparr>levels := ls\<rparr>))"

definition Populate ::
  "reflection \<Rightarrow> nat \<Rightarrow> string list \<Rightarrow> string list \<Rightarrow> string list \<Rightarrow> Graph \<times> heap \<Rightarrow>
   (Graph \<times> heap) result option"
where
  "Populate rt fuel ord1 ord2 ord3 st =
     (case explicit_unnamed rt fuel 0 st of
        None \<Rightarrow> None
      | Some x \<Rightarrow>
          Some (and_then x (\<lambda>st1.
                and_then (for_each (visit_named (populateExplicit rt)) ord1 st1) (\<lambda>st2.
                and_then (for_each (visit_unnamed (populateUnnamedInterface rt))
                            [0..<length (unnamed (fst st2))] st2) (\<lambda>st3.
                and_then (for_each (visit_named (populateUnnamedInterface rt)) ord2 st3) (\<lambda>st4.
                  (case build_levels ord3 (fst st4) of (eo, g) \<Rightarrow> (eo, (g, snd st4)))))))))"


definition PopulateValues ::
  "reflection \<Rightarrow> nat \<Rightarrow> iface list \<Rightarrow> heap \<Rightarrow> (Graph \<times> heap) result option"
where
  \<comment> \<open>the package-level \<open>Populate(values ...interface{})\<close>\<close>
  "PopulateValues rt fuel vs h =
     (case Provide rt (map (\<lambda>v. new_Object v [] False) vs) empty_Graph of
        (Some e, g) \<Rightarrow> Some (Some e, (g, h))
      | (None, g) \<Rightarrow> Populate rt fuel [] [] [] (g, h))"

section \<open>Example programs\<close>

text \<open>
  The printed form of a type in the examples: the package-qualified name, with the
  package's import path cut down to its last element, as \<open>reflect\<close> prints it.
\<close>

fun after_slash :: "string \<Rightarrow> string \<Rightarrow> string" where
  "after_slash acc [] = acc"
| "after_slash acc (c # cs) = (if c = CHR ''/'' then after_slash [] cs else after_slash (acc @ [c]) cs)"

fun go_string :: "rtype \<Rightarrow> string" where
  "go_string (TStruct n) = after_slash [] n"
| "go_string (TPtr t) = CHR ''*'' # go_string t"
| "go_string (TInterface n) = after_slash [] n"
| "go_string (TMap k v) = ''map['' @ go_string k @ '']'' @ go_string v"
| "go_string (TBasic n) = n"

definition field :: "string \<Rightarrow> rtype \<Rightarrow> string \<Rightarrow> StructField" where
  \<comment> \<open>an exported, ordinary (not embedded) field\<close>
  "field n t tg = \<lparr>fname = n, ftype = t, ftag = tg, fexported = True, fanonymous = False\<rparr>"

definition root_object :: "string \<Rightarrow> nat \<Rightarrow> Object" where
  \<comment> \<open>what \<open>Provide\<close> stores for \<open>&Object{Value: v}\<close>, \<open>v\<close> a pointer to allocation \<open>a\<close> of
      struct type \<open>s\<close>\<close>
  "root_object s a =
     \<lparr>Value = Some (TPtr (TStruct s), VPtr a []), Name = [], Complete = False,
      reflectType = Some (TPtr (TStruct s)), reflectValue = Some (VPtr a []),
      is_private = False, level = 0, created = False, embedded = False\<rparr>"



text \<open>
  Two packages named \<open>foo\<close>, imported from \<open>a/foo\<close> and \<open>b/foo\<close>, each declare
  \<open>type Foo struct{}\<close>; \<open>type App struct { X *foo.Foo `inject:""` }\<close> uses the first.
\<close>

definition rt_pkgs :: reflection where
  "rt_pkgs =
     \<lparr>Fields = (\<lambda>n. if n = ''main.App''
                      then [field ''X'' (TPtr (TStruct ''a/foo.Foo'')) (''inject:'' @ [dquote, dquote])]
                      else []),
      Implements = (\<lambda>t n. False),
      TypeString = go_string,
      Zero = (\<lambda>t. if t = TStruct ''main.App'' then VStruct [VNil]
                   else if Kind t = KStruct then VStruct [] else VNil)\<rparr>"

definition g_pkgs :: Graph where
  \<comment> \<open>after \<open>Provide(&Object{Value: &App{}}, &Object{Value: &bfoo.Foo{}})\<close>\<close>
  "g_pkgs = empty_Graph\<lparr>unnamed := [root_object ''main.App'' 0, root_object ''b/foo.Foo'' 1],
                        unnamedType := (\<lambda>k. k = ''*main.App'' \<or> k = ''*foo.Foo'')\<rparr>"

definition h_pkgs :: heap where
  "h_pkgs = [VStruct [VNil], VStruct []]"




text \<open>
  \<open>type Leaf struct{}\<close>, \<open>type Inner struct { A *Leaf `inject:""` }\<close>, and two outer
  structs with an ordinary (named, not embedded) field of type \<open>Inner\<close>:
  \<open>type Outer struct { In Inner `inject:"inline"` }\<close> and
  \<open>type Plain struct { In Inner `inject:""` }\<close>.
\<close>

definition rt_inline :: reflection where
  \<open>rt_inline =
     \<lparr>Fields = (\<lambda>n. if n = ''Outer'' then [field ''In'' (TStruct ''Inner'') ''inject:"inline"'']
                     else if n = ''Plain'' then [field ''In'' (TStruct ''Inner'') ''inject:""'']
                     else if n = ''Inner'' then [field ''A'' (TPtr (TStruct ''Leaf'')) ''inject:""'']
                     else []),
      Implements = (\<lambda>t n. False),
      TypeString = go_string,
      Zero = (\<lambda>t. if t = TStruct ''Outer'' \<or> t = TStruct ''Plain'' then VStruct [VStruct [VNil]]
                   else if t = TStruct ''Inner'' then VStruct [VNil]
                   else if t = TStruct ''Leaf'' then VStruct []
                   else VNil)\<rparr>\<close>




definition g_plain :: Graph where
  "g_plain = empty_Graph\<lparr>unnamed := [root_object ''Plain'' 0], unnamedType := (\<lambda>k. k = ''*Plain'')\<rparr>"

definition h_nested :: heap where
  "h_nested = [VStruct [VStruct [VNil]], VStruct []]"

definition embedded_object :: "rtype \<Rightarrow> nat \<Rightarrow> nat list \<Rightarrow> nat \<Rightarrow> Object" where
  \<comment> \<open>the entry \<open>populateExplicit\<close> provides for an inline struct of type \<open>t\<close> stored at path
      \<open>p\<close> of allocation \<open>a\<close>\<close>
  "embedded_object t a p l =
     \<lparr>Value = Some (TPtr t, VPtr a p), Name = [], Complete = False,
      reflectType = Some (TPtr t), reflectValue = Some (VPtr a p),
      is_private = True, level = l, created = False, embedded = True\<rparr>"

section \<open>Notions the claims are stated with\<close>

definition raised :: "Object \<Rightarrow> Object \<Rightarrow> bool" where
  \<comment> \<open>the same object, its level raised or left as it was\<close>
  "raised x y = (y = x\<lparr>level := level y\<rparr> \<and> level x \<le> level y)"

definition is_candidate :: "reflection \<Rightarrow> rtype \<Rightarrow> Object \<Rightarrow> bool" where
  \<comment> \<open>an entry a scan may pick for a field of type \<open>ft\<close>: not private, of an assignable type\<close>
  "is_candidate rt ft e =
     (\<not> is_private e \<and> (case reflectType e of None \<Rightarrow> False | Some t \<Rightarrow> AssignableTo rt t ft))"

definition candidates :: "reflection \<Rightarrow> rtype \<Rightarrow> Graph \<Rightarrow> nat list" where
  \<comment> \<open>the candidates among \<open>g.unnamed\<close>, by index, in registration order\<close>
  "candidates rt ft g = filter (\<lambda>k. is_candidate rt ft (unnamed g ! k)) [0..<length (unnamed g)]"


text \<open>
  \<open>type Answerable interface { Answer() int }\<close>, implemented by \<open>*One\<close> and \<open>*Two\<close>, and
  \<open>type Consumer struct { A Answerable `inject:""` }\<close>.
\<close>

definition rt_iface :: reflection where
  \<open>rt_iface =
     \<lparr>Fields = (\<lambda>n. if n = ''Consumer'' then [field ''A'' (TInterface ''Answerable'') ''inject:""'']
                     else []),
      Implements = (\<lambda>t n. n = ''Answerable'' \<and> (t = TPtr (TStruct ''One'') \<or> t = TPtr (TStruct ''Two''))),
      TypeString = go_string,
      Zero = (\<lambda>t. if t = TStruct ''Consumer'' then VStruct [VNil]
                   else if Kind t = KStruct then VStruct [] else VNil)\<rparr>\<close>


definition h_iface :: heap where
  "h_iface = [VStruct [VNil], VStruct [], VStruct []]"

text \<open>
  \<open>type A struct { B *B `inject:""` }\<close>, \<open>type B struct { C *C `inject:""` }\<close>,
  \<open>type C struct{}\<close>; an \<open>A\<close> is provided under the name \<open>n\<close>.
\<close>

definition rt_chain :: reflection where
  \<open>rt_chain =
     \<lparr>Fields = (\<lambda>n. if n = ''A'' then [field ''B'' (TPtr (TStruct ''B'')) ''inject:""'']
                     else if n = ''B'' then [field ''C'' (TPtr (TStruct ''C'')) ''inject:""'']
                     else []),
      Implements = (\<lambda>t n. False),
      TypeString = go_string,
      Zero = (\<lambda>t. if t = TStruct ''A'' \<or> t = TStruct ''B'' then VStruct [VNil]
                   else if t = TStruct ''C'' then VStruct [] else VNil)\<rparr>\<close>

definition populate_chain :: "Graph \<times> heap \<Rightarrow> (Graph \<times> heap) result option" where
  \<comment> \<open>\<open>g.Populate()\<close> on a graph whose only name is \<open>n\<close>\<close>
  "populate_chain st = Populate rt_chain 5 [''n''] [''n''] [''n''] st"

definition chain_start :: "Graph \<times> heap" where
  \<comment> \<open>after \<open>g.Provide(&Object{Value: &a, Name: "n"})\<close>, \<open>a\<close> a zero \<open>A\<close>\<close>
  "chain_start =
     (snd (Provide rt_chain [new_Object (Some (TPtr (TStruct ''A''), VPtr 0 [])) ''n'' False] empty_Graph),
      [VStruct [VNil]])"

definition chain_once :: "Graph \<times> heap" where
  \<comment> \<open>the graph and the heap when the first \<open>Populate\<close> has returned: \<open>a.B\<close> points to the
      \<open>B\<close> the pass created, whose field \<open>C\<close> is nil\<close>
  "chain_once =
     (\<lparr>unnamed = [\<lparr>Value = Some (TPtr (TStruct ''B''), VPtr 1 []), Name = [], Complete = False,
                   reflectType = Some (TPtr (TStruct ''B'')), reflectValue = Some (VPtr 1 []),
                   is_private = False, level = 1, created = True, embedded = False\<rparr>],
       unnamedType = (\<lambda>k. False)(''*B'' := True),
       named = [''n'' \<mapsto> \<lparr>Value = Some (TPtr (TStruct ''A''), VPtr 0 []), Name = ''n'',
                   Complete = False, reflectType = Some (TPtr (TStruct ''A'')),
                   reflectValue = Some (VPtr 0 []), is_private = False, level = 0,
                   created = False, embedded = False\<rparr>],
       maxLevel = 1,
       levels = [[Named ''n''], [Unnamed 0]]\<rparr>,
      [VStruct [VPtr 1 []], VStruct [VNil]])"

text \<open>
  \<open>type A struct { B *B `inject:""` }\<close> and \<open>type B struct { t Answerable `inject:""` }\<close>,
  the field \<open>t\<close> unexported; \<open>*One\<close> implements \<open>Answerable\<close>.
\<close>

definition rt_hidden :: reflection where
  \<open>rt_hidden =
     \<lparr>Fields = (\<lambda>n. if n = ''A'' then [field ''B'' (TPtr (TStruct ''B'')) ''inject:""'']
                     else if n = ''B''
                     then [(field ''t'' (TInterface ''Answerable'') ''inject:""'')\<lparr>fexported := False\<rparr>]
                     else []),
      Implements = (\<lambda>t n. n = ''Answerable'' \<and> t = TPtr (TStruct ''One'')),
      TypeString = go_string,
      Zero = (\<lambda>t. if t = TStruct ''A'' \<or> t = TStruct ''B'' then VStruct [VNil]
                   else if t = TStruct ''One'' then VStruct [] else VNil)\<rparr>\<close>

definition hidden_start :: "Graph \<times> heap" where
  \<comment> \<open>after \<open>g.Provide(&Object{Value: &a, Name: "n"}, &Object{Value: &one})\<close>, \<open>a\<close> a zero
      \<open>A\<close> in allocation 0 and \<open>one\<close> a \<open>One\<close> in allocation 1\<close>
  "hidden_start =
     (snd (Provide rt_hidden
             [new_Object (Some (TPtr (TStruct ''A''), VPtr 0 [])) ''n'' False,
              new_Object (Some (TPtr (TStruct ''One''), VPtr 1 [])) [] False] empty_Graph),
      [VStruct [VNil], VStruct []])"

definition graph_le :: "Graph \<Rightarrow> Graph \<Rightarrow> bool" where
  \<comment> \<open>every entry of the first graph is still there in the second, its level raised or
      left as it was, and the greatest level recorded has not dropped\<close>
  "graph_le g g' =
     ((\<forall>r x. get_obj g r = Some x \<longrightarrow> (\<exists>y. get_obj g' r = Some y \<and> raised x y))
      \<and> maxLevel g \<le> maxLevel g')"

definition bounded :: "Graph \<Rightarrow> bool" where
  \<comment> \<open>no entry lies deeper than \<open>maxLevel\<close>\<close>
  "bounded g = (\<forall>r x. get_obj g r = Some x \<longrightarrow> level x \<le> maxLevel g)"



definition keeps_levels :: "Graph \<Rightarrow> Graph \<Rightarrow> bool" where
  "keeps_levels g g' = (graph_le g g' \<and> (bounded g \<longrightarrow> bounded g'))"

text \<open>
  The types of \<open>TestLevels\<close>: \<open>LevelA { B *LevelB; C *LevelC }\<close>,
  \<open>LevelB { C *LevelC; D *LevelD }\<close>, \<open>LevelE { F *LevelF }\<close>, \<open>LevelC { F int }\<close>,
  \<open>LevelD { C *LevelC }\<close>, \<open>LevelF { F int }\<close>, every pointer field tagged \<open>inject:""\<close>.
\<close>

definition rt_levels :: reflection where
  \<open>rt_levels =
     \<lparr>Fields = (\<lambda>n.
        if n = ''LevelA'' then [field ''B'' (TPtr (TStruct ''LevelB'')) ''inject:""'',
                                field ''C'' (TPtr (TStruct ''LevelC'')) ''inject:""'']
        else if n = ''LevelB'' then [field ''C'' (TPtr (TStruct ''LevelC'')) ''inject:""'',
                                     field ''D'' (TPtr (TStruct ''LevelD'')) ''inject:""'']
        else if n = ''LevelE'' then [field ''F'' (TPtr (TStruct ''LevelF'')) ''inject:""'']
        else if n = ''LevelD'' then [field ''C'' (TPtr (TStruct ''LevelC'')) ''inject:""'']
        else if n = ''LevelC'' \<or> n = ''LevelF'' then [field ''F'' (TBasic ''int'') []]
        else []),
      Implements = (\<lambda>t n. False),
      TypeString = go_string,
      Zero = (\<lambda>t. if t = TStruct ''LevelA'' \<or> t = TStruct ''LevelB'' then VStruct [VNil, VNil]
                   else if t = TStruct ''LevelE'' \<or> t = TStruct ''LevelD'' then VStruct [VNil]
                   else if t = TStruct ''LevelC'' \<or> t = TStruct ''LevelF'' then VStruct [VBasic 0]
                   else if t = TBasic ''int'' then VBasic 0
                   else VNil)\<rparr>\<close>

definition levels_start :: "Graph \<times> heap" where
  \<comment> \<open>after \<open>g.Provide(&Object{Value: &a}, &Object{Value: &b}, &Object{Value: &e})\<close>\<close>
  "levels_start =
     (empty_Graph\<lparr>unnamed := [root_object ''LevelA'' 0, root_object ''LevelB'' 1,
                               root_object ''LevelE'' 2],
                  unnamedType := ((\<lambda>k. False)(''*LevelA'' := True, ''*LevelB'' := True,
                                                 ''*LevelE'' := True))\<rparr>,
      [VStruct [VNil, VNil], VStruct [VNil, VNil], VStruct [VNil]])"




text \<open>
  \<open>type A struct { B *B `inject:""` }\<close>, \<open>type B struct { P *C `inject:"private"` }\<close>,
  \<open>type C struct{}\<close>, and \<open>type T struct { P1 *C `inject:"private"`; P2 *C
  `inject:"private"`; S *C `inject:""` }\<close>.
\<close>

definition rt_private :: reflection where
  \<open>rt_private =
     \<lparr>Fields = (\<lambda>n. if n = ''A'' then [field ''B'' (TPtr (TStruct ''B'')) ''inject:""'']
                     else if n = ''B'' then [field ''P'' (TPtr (TStruct ''C'')) ''inject:"private"'']
                     else if n = ''T'' then [field ''P1'' (TPtr (TStruct ''C'')) ''inject:"private"'',
                                             field ''P2'' (TPtr (TStruct ''C'')) ''inject:"private"'',
                                             field ''S'' (TPtr (TStruct ''C'')) ''inject:""'']
                     else []),
      Implements = (\<lambda>t n. False),
      TypeString = go_string,
      Zero = (\<lambda>t. if t = TStruct ''A'' \<or> t = TStruct ''B'' then VStruct [VNil]
                   else if t = TStruct ''T'' then VStruct [VNil, VNil, VNil]
                   else if t = TStruct ''C'' then VStruct [] else VNil)\<rparr>\<close>

definition private_start :: "Graph \<times> heap" where
  \<comment> \<open>after \<open>g.Provide(&Object{Value: &a, Name: "n"})\<close>, \<open>a\<close> a zero \<open>A\<close>\<close>
  "private_start =
     (snd (Provide rt_private [new_Object (Some (TPtr (TStruct ''A''), VPtr 0 [])) ''n'' False]
             empty_Graph),
      [VStruct [VNil]])"

section \<open>Termination of the scanners\<close>

lemma DecodeRune_width: "s \<noteq> [] \<Longrightarrow> 0 < snd (DecodeRune s)"
  by (simp add: DecodeRune_def Let_def)

termination ValidString
  apply (relation "measure length")
  apply simp
  subgoal for s x1 x2
  using DecodeRune_width [of s] by (cases "DecodeRune s") auto
  done

lemma UnquoteEscape_tail: "UnquoteEscape e t q = Some (c, m, ss) \<Longrightarrow> length ss \<le> length t"
  unfolding UnquoteEscape_def Let_def
  by (simp split: if_splits option.splits) clarsimp+

lemma UnquoteChar_tail:
  assumes u: "UnquoteChar s q = Some (c, m, ss)"
  shows "length ss < length s"
proof (cases s)
  case Nil with u show ?thesis by (simp add: UnquoteChar_def)
next
  case (Cons a t)
  have w: "0 < snd (DecodeRune s)" using Cons DecodeRune_width [of s] by simp
  show ?thesis
  proof (cases "a = bslash")
    case False
    with u Cons w show ?thesis
      by (auto simp: UnquoteChar_def split: if_splits prod.splits)
  next
    case True
    with u Cons obtain e t' where "t = e # t'" "UnquoteEscape e t' q = Some (c, m, ss)"
      by (auto simp: UnquoteChar_def split: if_splits list.splits)
    with Cons UnquoteEscape_tail [of e t' q c m ss] show ?thesis by simp
  qed
qed

termination unquote_loop
  apply (relation "measure (\<lambda>(q, s, b). length s)")
  apply simp
  apply (auto dest: UnquoteChar_tail)
  done



termination extractTag
  apply (relation "measure length")
  apply simp
  apply simp
  done

declare ValidString.simps [simp del] unquote_loop.simps [simp del] extractTag.simps [simp del]

section \<open>The scanner against the grammar\<close>

lemma skip_space_stop: "r = [] \<or> hd r \<noteq> space \<Longrightarrow> skip_space r = 0"
  by (cases r) auto

lemma skip_space_spaces:
  "spaces sp \<Longrightarrow> r = [] \<or> hd r \<noteq> space \<Longrightarrow> skip_space (sp @ r) = length sp"
  by (induction sp) (simp_all add: spaces_def skip_space_stop)

lemma scan_to_colon_key:
  "key_chars k \<Longrightarrow> scan_to_colon (k @ colon # r) = length k"
  by (induction k) (auto simp: key_chars_def)

lemma scan_quoted_body:
  "quoted_body body \<Longrightarrow> scan_quoted (body @ dquote # r) = length body"
  by (induction body rule: quoted_body.induct) (auto split: list.splits if_splits)


lemma key_hd: "key_chars k \<Longrightarrow> hd (k @ colon # r) \<noteq> space"
  by (cases k) (auto simp: key_chars_def)

lemma extractTag_pair:
  assumes "spaces sp" "key_chars k" "quoted_body body"
  shows "extractTag (sp @ k @ colon # dquote # body @ dquote # rest) =
           (if k = ''inject''
            then (case Unquote (dquote # body @ [dquote]) of
                    None \<Rightarrow> Inl ErrSyntax | Some v \<Rightarrow> Inr (True, v))
            else extractTag rest)"
proof -
  let ?t1 = "k @ colon # dquote # body @ dquote # rest"
  have s: "skip_space (sp @ ?t1) = length sp"
    using assms(1) key_hd [OF assms(2)] by (intro skip_space_spaces) auto
  have c: "scan_to_colon ?t1 = length k" using assms(2) by (rule scan_to_colon_key)
  have q: "scan_quoted (body @ dquote # rest) = length body"
    using assms(3) by (rule scan_quoted_body)
  show ?thesis
    by (subst extractTag.simps) (simp add: Let_def s c q nth_append)
qed



lemma extractTag_prefix:
  "tag_pairs t ps \<Longrightarrow> map_of ps ''inject'' = Some v \<Longrightarrow> extractTag (t @ rest) = Inr (True, v)"
proof (induction rule: tag_pairs.induct)
  case (tag_end sp)
  then show ?case by simp
next
  case (tag_pair sp k body w r ps)
  have *: "extractTag (sp @ k @ colon # dquote # body @ dquote # (r @ rest)) =
          (if k = ''inject''
           then (case Unquote (dquote # body @ [dquote]) of
                   None \<Rightarrow> Inl ErrSyntax | Some v \<Rightarrow> Inr (True, v))
           else extractTag (r @ rest))"
    using tag_pair.hyps(1-3) by (rule extractTag_pair)
  show ?case
  proof (cases "k = ''inject''")
    case True
    with tag_pair.prems tag_pair.hyps(4) * show ?thesis by simp
  next
    case False
    with tag_pair.prems tag_pair.IH * show ?thesis by simp
  qed
qed


section \<open>Evaluating \<open>parseTag\<close> on the tags that occur\<close>

lemma ValidString_ascii: "\<forall>c \<in> set s. (of_char c :: nat) < 0x80 \<Longrightarrow> ValidString s"
proof (induction s)
  case Nil
  show ?case by (subst ValidString.simps) simp
next
  case (Cons c s)
  then show ?case
    by (subst ValidString.simps) (simp add: DecodeRune_def RuneError_def)
qed

lemma Unquote_plain:
  assumes "\<forall>c \<in> set b. (of_char c :: nat) < 0x80 \<and> c \<noteq> bslash \<and> c \<noteq> dquote \<and> c \<noteq> newline"
  shows "Unquote (dquote # b @ [dquote]) = Some b"
proof -
  have "ValidString b" using assms by (intro ValidString_ascii) auto
  moreover have "bslash \<notin> set b" "dquote \<notin> set b" "newline \<notin> set b" using assms by auto
  ultimately show ?thesis by (simp add: Unquote_def Let_def nth_append)
qed

lemma quoted_body_plain: "\<forall>c \<in> set b. c \<noteq> bslash \<and> c \<noteq> dquote \<Longrightarrow> quoted_body b"
  by (induction b) auto

lemma tag_pairs_single:
  assumes "key_chars k"
    and "\<forall>c \<in> set b. (of_char c :: nat) < 0x80 \<and> c \<noteq> bslash \<and> c \<noteq> dquote \<and> c \<noteq> newline"
  shows "tag_pairs (k @ colon # dquote # b @ [dquote]) [(k, b)]"
proof -
  have "tag_pairs ([] @ k @ colon # dquote # b @ dquote # []) ((k, b) # [])"
    using assms
    by (intro tag_pair tag_end quoted_body_plain Unquote_plain) (auto simp: spaces_def)
  then show ?thesis by simp
qed

lemma parseTag_inject_value:
  assumes "\<forall>c \<in> set b. (of_char c :: nat) < 0x80 \<and> c \<noteq> bslash \<and> c \<noteq> dquote \<and> c \<noteq> newline"
  shows "parseTag (''inject:'' @ dquote # b @ [dquote] @ rest) = Inr (tag_of_value (Some b))"
proof -
  have "tag_pairs (''inject'' @ colon # dquote # b @ [dquote]) [(''inject'', b)]"
    using assms by (intro tag_pairs_single) (simp_all add: key_chars_def)
  then have "extractTag ((''inject'' @ colon # dquote # b @ [dquote]) @ rest) = Inr (True, b)"
    by (rule extractTag_prefix) simp
  then show ?thesis by (simp add: parseTag_def tag_of_value_def)
qed

lemma parseTag_plain: \<open>parseTag ''inject:""'' = Inr (Some injectOnly)\<close>
  using parseTag_inject_value [of "[]" "[]"] by (simp add: tag_of_value_def)

lemma parseTag_private: \<open>parseTag ''inject:"private"'' = Inr (Some injectPrivate)\<close>
  using parseTag_inject_value [of "''private''" "[]"] by (simp add: tag_of_value_def)


lemma parseTag_name_n:
  \<open>parseTag ''inject:"n"'' = Inr (Some \<lparr>tagName = ''n'', tagPrivate = False\<rparr>)\<close>
  using parseTag_inject_value [of "''n''" "[]"] by (simp add: tag_of_value_def)



section \<open>The claims\<close>




section \<open>Evaluating the passes on the example programs\<close>

lemmas step_defs = explicit_field_def interface_field_def interface_visit_def Provide1_def
  isStructPtr_def isNilOrZero_def AssignableTo_def load_def store_def ValueOf_def
  raise_maxLevel_def updateLevel_def injectOnly_def injectPrivate_def Let_def and_then_def

lemmas run_defs = Populate_def PopulateValues_def Provide_def populateExplicit_def
  populateUnnamedInterface_def visit_named_def visit_unnamed_def build_levels_def add_level_def
  new_Object_def empty_Graph_def

lemma upt_small: "[0..<1] = [0]" "[0..<2] = [0, 1]" "[0..<3] = [0, 1, 2]" "[0..<4] = [0, 1, 2, 3]"
  by (simp_all add: upt_rec)

lemma g_pkgs_provided:
  "Provide rt_pkgs [new_Object (Some (TPtr (TStruct ''main.App''), VPtr 0 [])) [] False,
                    new_Object (Some (TPtr (TStruct ''b/foo.Foo''), VPtr 1 [])) [] False] empty_Graph
   = (None, g_pkgs)"
  by (simp add: Provide_def Provide1_def new_Object_def empty_Graph_def isStructPtr_def
      rt_pkgs_def g_pkgs_def root_object_def fun_eq_iff Let_def)

text \<open>
  Claim C4 (what \<open>Provide\<close> rejects and registers). The claim holds except where it says
  that an unnamed object whose concrete type has no registered entry is registered:
  \<open>Provide\<close> keys \<open>unnamedType\<close> by the printed form of the type, which two types of
  equally named packages share. Providing \<open>&foo.Foo{}\<close> of package \<open>a/foo\<close> and then
  \<open>&foo.Foo{}\<close> of package \<open>b/foo\<close> fails with "provided two unnamed instances", although
  the only registered entry has another concrete type.
\<close>

theorem Provide_same_printed_name:
  "TPtr (TStruct ''a/foo.Foo'') \<noteq> TPtr (TStruct ''b/foo.Foo'')
   \<and> Provide rt_pkgs [new_Object (Some (TPtr (TStruct ''a/foo.Foo''), VPtr 0 [])) [] False,
                      new_Object (Some (TPtr (TStruct ''b/foo.Foo''), VPtr 1 [])) [] False] empty_Graph
     = (Some (TwoUnnamed (TPtr (TStruct ''b/foo.Foo''))),
        empty_Graph\<lparr>unnamed := [root_object ''a/foo.Foo'' 0],
                    unnamedType := (\<lambda>k. k = ''*foo.Foo'')\<rparr>)"
  by (simp add: Provide_def Provide1_def new_Object_def empty_Graph_def isStructPtr_def
      rt_pkgs_def root_object_def fun_eq_iff Let_def)

text \<open>
  Claim C1 (a plain-tagged pointer field takes the first assignable entry, or a fresh
  one). The same defect shows here: \<open>App.X\<close> has type \<open>*foo.Foo\<close> of package \<open>a/foo\<close>, the
  graph holds \<open>App\<close> and a \<open>foo.Foo\<close> of package \<open>b/foo\<close>. No entry is assignable to the
  field, yet no instance is registered and wired: \<open>Provide\<close> refuses the fresh object, the
  field stays nil and \<open>Populate\<close> fails.
\<close>

theorem plain_pointer_same_printed_name:
  "find_existing rt_pkgs (TPtr (TStruct ''a/foo.Foo'')) (unnamed g_pkgs) 0 = Inr None
   \<and> fst (explicit_field rt_pkgs (Unnamed 0) ''main.App'' 0 [] 0 (g_pkgs, h_pkgs))
       = Some (TwoUnnamed (TPtr (TStruct ''a/foo.Foo'')))
   \<and> load (snd (snd (explicit_field rt_pkgs (Unnamed 0) ''main.App'' 0 [] 0 (g_pkgs, h_pkgs)))) 0 [0]
       = Some VNil
   \<and> map_option fst (PopulateValues rt_pkgs 3 [Some (TPtr (TStruct ''main.App''), VPtr 0 []),
                        Some (TPtr (TStruct ''b/foo.Foo''), VPtr 1 [])] h_pkgs)
       = Some (Some (TwoUnnamed (TPtr (TStruct ''a/foo.Foo''))))"
  by (simp add: step_defs run_defs rt_pkgs_def g_pkgs_def h_pkgs_def root_object_def field_def
      parseTag_plain [simplified] numeral_3_eq_3 upt_small)






lemma explicit_field_struct:
  assumes "get_obj g r = Some ob" and "load h a (p @ [i]) = Some v"
    and "parseTag (ftag (Fields rt s ! i)) = Inr (Some tg)"
    and "fexported (Fields rt s ! i)" and "isNilOrZero rt v (ftype (Fields rt s ! i))"
    and "tagName tg = []" and "Kind (ftype (Fields rt s ! i)) = KStruct"
  shows "explicit_field rt r s a p i (g, h) =
           (if tg = injectPrivate
            then (Some (PrivateInline (fname (Fields rt s ! i)) (TPtr (TStruct s))), (g, h))
            else (None, ((raise_maxLevel g (level ob + 1))
                           \<lparr>unnamed := unnamed g @
                              [embedded_object (ftype (Fields rt s ! i)) a (p @ [i]) (level ob + 1)]\<rparr>,
                         h)))"
  using assms
  by (simp add: explicit_field_def Let_def Provide1_def isStructPtr_def embedded_object_def
      raise_maxLevel_def)





text \<open>
  Claim C7 (plain tag on a nested struct), as amended. A struct-kind field that is still
  zero and exported and carries the plain tag is never rejected, whether it is an ordinary
  field or an embedded one (the code does not read \<open>Anonymous\<close>): the pass registers a
  private, embedded entry pointing at the field's own storage, one level below the owner,
  and leaves the field as it is. Only the private tag is rejected on such a field.
\<close>

theorem plain_struct_field_is_traversed:
  \<open>get_obj g r = Some ob \<and> load h a (p @ [i]) = Some v
   \<and> Kind (ftype (Fields rt s ! i)) = KStruct \<and> fexported (Fields rt s ! i)
   \<and> isNilOrZero rt v (ftype (Fields rt s ! i)) \<longrightarrow>
     (ftag (Fields rt s ! i) = ''inject:""'' \<longrightarrow>
        explicit_field rt r s a p i (g, h) =
          (None, ((raise_maxLevel g (level ob + 1))
                    \<lparr>unnamed := unnamed g @
                       [embedded_object (ftype (Fields rt s ! i)) a (p @ [i]) (level ob + 1)]\<rparr>,
                  h)))
     \<and> (ftag (Fields rt s ! i) = ''inject:"private"'' \<longrightarrow>
        explicit_field rt r s a p i (g, h) =
          (Some (PrivateInline (fname (Fields rt s ! i)) (TPtr (TStruct s))), (g, h)))\<close>
proof (intro conjI impI)
  assume h: "get_obj g r = Some ob \<and> load h a (p @ [i]) = Some v
   \<and> Kind (ftype (Fields rt s ! i)) = KStruct \<and> fexported (Fields rt s ! i)
   \<and> isNilOrZero rt v (ftype (Fields rt s ! i))"
  {
    assume \<open>ftag (Fields rt s ! i) = ''inject:""''\<close>
    with h show "explicit_field rt r s a p i (g, h) =
          (None, ((raise_maxLevel g (level ob + 1))
                    \<lparr>unnamed := unnamed g @
                       [embedded_object (ftype (Fields rt s ! i)) a (p @ [i]) (level ob + 1)]\<rparr>,
                  h))"
      using explicit_field_struct [of g r ob h a p i v rt s injectOnly]
      by (simp add: parseTag_plain) (simp add: injectOnly_def injectPrivate_def)
  next
    assume \<open>ftag (Fields rt s ! i) = ''inject:"private"''\<close>
    with h show "explicit_field rt r s a p i (g, h) =
          (Some (PrivateInline (fname (Fields rt s ! i)) (TPtr (TStruct s))), (g, h))"
      using explicit_field_struct [of g r ob h a p i v rt s injectPrivate]
      by (simp add: parseTag_private) (simp add: injectPrivate_def)
  }
qed

text \<open>
  The claim as stated fails on \<open>type Plain struct { In Inner `inject:""` }\<close>, an ordinary
  named field: no error, the entry for \<open>In\<close> is registered and \<open>Populate\<close> goes on to fill
  \<open>In.A\<close>.
\<close>

theorem plain_struct_field_counterexample:
  "\<not> fanonymous (Fields rt_inline ''Plain'' ! 0)
   \<and> explicit_field rt_inline (Unnamed 0) ''Plain'' 0 [] 0 (g_plain, h_nested) =
       (None, (g_plain\<lparr>maxLevel := 1,
                 unnamed := [root_object ''Plain'' 0, embedded_object (TStruct ''Inner'') 0 [0] 1]\<rparr>,
               h_nested))
   \<and> map_option (\<lambda>x. (fst x, snd (snd x)))
        (PopulateValues rt_inline 4 [Some (TPtr (TStruct ''Plain''), VPtr 0 [])] h_nested)
       = Some (None, [VStruct [VStruct [VPtr 2 []]], VStruct [], VStruct []])"
  by (simp add: step_defs run_defs rt_inline_def g_plain_def h_nested_def root_object_def field_def
      embedded_object_def parseTag_plain numeral_eq_Suc upt_small)

theorem plain_struct_field_is_traversed_witness:
  "explicit_field rt_inline (Unnamed 0) ''Plain'' 0 [] 0 (g_plain, h_nested) =
       (None, (g_plain\<lparr>maxLevel := 1,
                 unnamed := [root_object ''Plain'' 0, embedded_object (TStruct ''Inner'') 0 [0] 1]\<rparr>,
               h_nested))"
proof -
  have hy: \<open>get_obj g_plain (Unnamed 0) = Some (root_object ''Plain'' 0)
        \<and> load h_nested 0 ([] @ [0]) = Some (VStruct [VNil])
        \<and> Kind (ftype (Fields rt_inline ''Plain'' ! 0)) = KStruct
        \<and> fexported (Fields rt_inline ''Plain'' ! 0)
        \<and> isNilOrZero rt_inline (VStruct [VNil]) (ftype (Fields rt_inline ''Plain'' ! 0))\<close>
    by (simp add: g_plain_def empty_Graph_def h_nested_def load_def rt_inline_def field_def
        isNilOrZero_def)
  have tg: \<open>ftag (Fields rt_inline ''Plain'' ! 0) = ''inject:""''\<close>
    by (simp add: rt_inline_def field_def)
  note a = plain_struct_field_is_traversed [of g_plain "Unnamed 0" "root_object ''Plain'' 0"
      h_nested 0 "[]" 0 "VStruct [VNil]" rt_inline "''Plain''"]
  from a hy tg
  have "explicit_field rt_inline (Unnamed 0) ''Plain'' 0 [] 0 (g_plain, h_nested) =
          (None, ((raise_maxLevel g_plain (level (root_object ''Plain'' 0) + 1))
                    \<lparr>unnamed := unnamed g_plain @
                       [embedded_object (ftype (Fields rt_inline ''Plain'' ! 0)) 0 ([] @ [0])
                          (level (root_object ''Plain'' 0) + 1)]\<rparr>,
                  h_nested))"
    by blast
  then show ?thesis
    by (simp add: raise_maxLevel_def g_plain_def empty_Graph_def root_object_def rt_inline_def
        field_def)
qed

section \<open>Levels only rise\<close>

lemma raised_refl [simp]: "raised x x"
  by (simp add: raised_def)




lemma set_level_length [simp]: "length (unnamed (set_level g d l)) = length (unnamed g)"
  by (cases d) (auto split: option.splits)

lemma set_level_maxLevel [simp]: "maxLevel (set_level g d l) = maxLevel g"
  by (cases d) (auto split: option.splits)



lemma set_level_named_None:
  "named g n = None \<Longrightarrow> named (set_level g d l) n = None"
  by (cases d) (auto split: option.splits if_splits)

lemma raise_maxLevel_simps [simp]:
  "unnamed (raise_maxLevel g l) = unnamed g" "named (raise_maxLevel g l) = named g"
  "unnamedType (raise_maxLevel g l) = unnamedType g" "levels (raise_maxLevel g l) = levels g"
  "maxLevel (raise_maxLevel g l) = max (maxLevel g) l"
  by (simp_all add: raise_maxLevel_def)

lemma updateLevel_length [simp]: "length (unnamed (updateLevel g u d)) = length (unnamed g)"
  by (simp add: updateLevel_def Let_def split: option.splits)



lemma updateLevel_named_None:
  "named g n = None \<Longrightarrow> named (updateLevel g u d) n = None"
  by (auto simp: updateLevel_def Let_def set_level_named_None split: option.splits)


lemma updateLevel_unnamedType [simp]: "unnamedType (updateLevel g u d) = unnamedType g"
  by (cases d) (auto simp: updateLevel_def Let_def raise_maxLevel_def split: option.splits)

section \<open>The scan of the second pass\<close>
















lemma Populate_interface_examples:
  "map_option fst (PopulateValues rt_iface 5 [Some (TPtr (TStruct ''Consumer''), VPtr 0 [])] h_iface)
     = Some (Some (NoAssignable ''A'' (TPtr (TStruct ''Consumer''))))"
  "map_option (\<lambda>x. (fst x, snd (snd x)))
     (PopulateValues rt_iface 5 [Some (TPtr (TStruct ''Consumer''), VPtr 0 []),
        Some (TPtr (TStruct ''One''), VPtr 1 [])] h_iface)
     = Some (None, [VStruct [VIface (TPtr (TStruct ''One'')) (VPtr 1 [])], VStruct [], VStruct []])"
  "map_option fst
     (PopulateValues rt_iface 5 [Some (TPtr (TStruct ''Consumer''), VPtr 0 []),
        Some (TPtr (TStruct ''One''), VPtr 1 []), Some (TPtr (TStruct ''Two''), VPtr 2 [])] h_iface)
     = Some (Some (TwoAssignable ''A'' (TPtr (TStruct ''Consumer''))
             (Some (TPtr (TStruct ''One''))) (Some (TPtr (TStruct ''One''), VPtr 1 []))
             (Some (TPtr (TStruct ''Two''))) (Some (VPtr 2 []))))"
  by (simp_all add: step_defs run_defs rt_iface_def h_iface_def field_def
      parseTag_plain numeral_eq_Suc upt_small)

lemma populateUnnamedInterface_fields:
  assumes "get_obj g r = Some ob" and "reflectType ob = Some (TPtr (TStruct s))"
    and "reflectValue ob = Some (VPtr a p)"
  shows "populateUnnamedInterface rt r (g, h) =
           for_each (interface_field rt r s a p) [0..<length (Fields rt s)] (g, h)"
  using assms by (simp add: populateUnnamedInterface_def isStructPtr_def)

text \<open>
  Claim C2 (the second pass on an interface field). On a field the first pass has
  vetted the code does what the claim says, as the lemmas above show for one turn of the
  loop and for whole runs of \<open>Populate\<close>. But the second pass relies on the first for
  every check it does not repeat ("other cases including errors are handled in the first
  pass"), and the first pass never visits an object created while a named object is
  populated. With an \<open>A\<close> provided under a name and a \<open>One\<close> provided unnamed, the \<open>B\<close>
  created for \<open>a.B\<close> reaches the second pass unvetted: its unexported field \<open>t\<close> is of
  interface kind, plain-tagged and nil, exactly one entry is assignable, and \<open>Populate\<close>
  neither wires it nor returns an error: \<open>field.Set\<close> panics. Provided unnamed, the same
  \<open>B\<close> is refused by the first pass with "inject requested on unexported field".
\<close>

theorem Populate_sets_unvetted_field:
  "candidates rt_hidden (TInterface ''Answerable'') (fst hidden_start) = [0]
   \<and> map_option fst (Populate rt_hidden 5 [''n''] [''n''] [''n''] hidden_start)
       = Some (Some (Panic ''reflect: Set using unexported field''))
   \<and> map_option fst
        (PopulateValues rt_hidden 5 [Some (TPtr (TStruct ''B''), VPtr 0 []),
           Some (TPtr (TStruct ''One''), VPtr 1 [])] [VStruct [VNil], VStruct []])
       = Some (Some (UnexportedField ''t'' (TPtr (TStruct ''B''))))"
  by (simp add: hidden_start_def candidates_def is_candidate_def step_defs run_defs rt_hidden_def
      field_def parseTag_plain numeral_eq_Suc upt_small)


text \<open>
  Claim C9 (a second \<open>Populate\<close> changes nothing). A field that is not zero is indeed
  skipped by both passes, which leave the graph and the heap as they were:
\<close>

lemma nonzero_field_is_skipped:
  assumes "load h a (p @ [i]) = Some v" and "\<not> isNilOrZero rt v (ftype (Fields rt s ! i))"
  shows "snd (explicit_field rt r s a p i (g, h)) = (g, h)"
    and "snd (interface_field rt r s a p i (g, h)) = (g, h)"
  using assms
  by (simp_all add: explicit_field_def interface_field_def Let_def
      split: option.splits sum.splits)

text \<open>
  But a \<open>Populate\<close> that returned without error need not have populated every object.
  \<open>Populate\<close> walks \<open>g.unnamed\<close> first and \<open>g.named\<close> after it, so an object created while a
  named object is populated is appended to \<open>g.unnamed\<close> when the walk over it has ended:
  the first pass never visits it. With an \<open>A\<close> provided under a name, the first
  \<open>Populate\<close> creates the \<open>B\<close> for \<open>a.B\<close> and returns with \<open>a.B.C\<close> nil; the second
  \<open>Populate\<close> sets \<open>a.B.C\<close>.
\<close>

theorem Populate_again_fills_a_field:
  "populate_chain chain_start = Some (None, chain_once)
   \<and> snd chain_once = [VStruct [VPtr 1 []], VStruct [VNil]]
   \<and> map_option (\<lambda>x. (fst x, snd (snd x))) (populate_chain chain_once) =
       Some (None, [VStruct [VPtr 1 []], VStruct [VPtr 2 []], VStruct []])"
  by (simp add: populate_chain_def chain_start_def chain_once_def step_defs run_defs rt_chain_def
      field_def parseTag_plain numeral_eq_Suc upt_small)

section \<open>Levels through the passes\<close>

lemma graph_le_refl [simp]: "graph_le g g"
  by (simp add: graph_le_def)






lemma get_obj_raise_maxLevel [simp]: "get_obj (raise_maxLevel g l) r = get_obj g r"
  by (cases r) simp_all





lemma keeps_levels_refl [simp]: "keeps_levels g g"
  by (simp add: keeps_levels_def)































lemma levels_provided:
  "Provide rt_levels [new_Object (Some (TPtr (TStruct ''LevelA''), VPtr 0 [])) [] False,
       new_Object (Some (TPtr (TStruct ''LevelB''), VPtr 1 [])) [] False,
       new_Object (Some (TPtr (TStruct ''LevelE''), VPtr 2 [])) [] False] empty_Graph
   = (None, fst levels_start)"
  by (simp add: Provide_def Provide1_def new_Object_def empty_Graph_def isStructPtr_def
      rt_levels_def levels_start_def root_object_def fun_eq_iff Let_def)













text \<open>
  Private instances. On a field the first pass visits, the private tag does what it
  says: the field takes no existing entry, a new allocation is registered as a private
  entry and assigned to the field, and neither scan ever picks a private entry.
\<close>

lemma explicit_field_private:
  assumes "get_obj g r = Some ob" and "load h a (p @ [i]) = Some VNil"
    and "parseTag (ftag (Fields rt s ! i)) = Inr (Some injectPrivate)"
    and "fexported (Fields rt s ! i)" and "isStructPtr (ftype (Fields rt s ! i))"
  shows "explicit_field rt r s a p i (g, h) =
           (None,
            ((raise_maxLevel g (level ob + 1))
               \<lparr>unnamed := unnamed g @
                  [\<lparr>Value = Some (ftype (Fields rt s ! i), VPtr (length h) []), Name = [],
                    Complete = False, reflectType = Some (ftype (Fields rt s ! i)),
                    reflectValue = Some (VPtr (length h) []), is_private = True,
                    level = level ob + 1, created = True, embedded = False\<rparr>]\<rparr>,
             store (h @ [Zero rt (Elem (ftype (Fields rt s ! i)))]) a (p @ [i]) (VPtr (length h) [])))"
proof -
  obtain e where t: "ftype (Fields rt s ! i) = TPtr e" and k: "Kind e = KStruct"
    using assms(5) by (auto simp: isStructPtr_def split: rtype.splits)
  show ?thesis
    using assms
    by (simp add: explicit_field_def Let_def Provide1_def isNilOrZero_def t k injectPrivate_def
        isStructPtr_def raise_maxLevel_def)
qed

lemma find_existing_not_private:
  "find_existing rt ft es k = Inr (Some j) \<Longrightarrow>
   k \<le> j \<and> j - k < length es \<and> \<not> is_private (es ! (j - k))"
proof (induction es arbitrary: k)
  case Nil
  then show ?case by simp
next
  case (Cons x es)
  show ?case
  proof (cases "find_existing rt ft es (Suc k) = Inr (Some j)")
    case True
    from Cons.IH [OF this] show ?thesis by (auto simp: Suc_diff_le)
  next
    case False
    with Cons.prems have "j = k \<and> \<not> is_private x"
      by (auto split: if_splits option.splits)
    then show ?thesis by simp
  qed
qed

lemma candidates_not_private:
  "k \<in> set (candidates rt ft g) \<Longrightarrow> k < length (unnamed g) \<and> \<not> is_private (unnamed g ! k)"
  by (simp add: candidates_def is_candidate_def)

lemma private_instances_example:
  "map_option (\<lambda>x. (fst x, snd (snd x), map is_private (unnamed (fst (snd x)))))
     (PopulateValues rt_private 5 [Some (TPtr (TStruct ''T''), VPtr 0 [])] [VStruct [VNil, VNil, VNil]])
   = Some (None,
       [VStruct [VPtr 1 [], VPtr 2 [], VPtr 3 []], VStruct [], VStruct [], VStruct []],
       [False, True, True, False])"
  by (simp add: step_defs run_defs rt_private_def field_def parseTag_plain parseTag_private
      numeral_eq_Suc upt_small)

text \<open>
  Claim C5 (private instances). For the objects the first pass visits the code does what
  the claim says, as the lemmas above show for one field, for the two scans and for a
  whole run (\<open>T\<close> gets two private instances and a shared one, all distinct). But not
  every private-tagged field is resolved: \<open>Populate\<close> walks \<open>g.unnamed\<close> before \<open>g.named\<close>, so
  an object created while a named object is populated is never visited by the first
  pass. With an \<open>A\<close> provided under a name, \<open>Populate\<close> returns without error, the created
  \<open>B\<close> is registered, and its field \<open>P\<close>, tagged private, is still nil: no private instance
  was created. With the same \<open>A\<close> provided unnamed, \<open>B.P\<close> gets its private instance.
\<close>

theorem private_field_left_nil:
  "map_option (\<lambda>x. (fst x, snd (snd x), map is_private (unnamed (fst (snd x)))))
     (Populate rt_private 5 [''n''] [''n''] [''n''] private_start)
   = Some (None, [VStruct [VPtr 1 []], VStruct [VNil]], [False])
   \<and> map_option (\<lambda>x. (fst x, snd (snd x), map is_private (unnamed (fst (snd x)))))
       (PopulateValues rt_private 5 [Some (TPtr (TStruct ''A''), VPtr 0 [])] [VStruct [VNil]])
     = Some (None, [VStruct [VPtr 1 []], VStruct [VPtr 2 []], VStruct []], [False, False, True])"
  by (simp add: private_start_def step_defs run_defs rt_private_def field_def parseTag_plain
      parseTag_private numeral_eq_Suc upt_small)

end
